theory Spec2Isabelle
  imports Complex_Main "HOL-Library.Sublist"
begin

section \<open>JavaScript values\<close>

text \<open>
  The front end handles untyped JSON (response bodies, \<open>any\<close>-typed props). A value is
  modelled by \<open>jsv\<close>. Numbers are exact rationals plus \<open>NaN\<close>: rounding, the infinities
  and negative zero are left out. An object is the list of its own properties; the first
  binding of a key is the one a property read sees. Strings are byte strings; every string
  the code compares against is ASCII.
\<close>

datatype jsnum = Num rat | NaN

datatype jsv =
    JUndefined
  | JNull
  | JBool bool
  | JNumber jsnum
  | JStr string
  | JArr "jsv list"
  | JObj "(string \<times> jsv) list"

text \<open>Truthiness of a number and of a value (\<open>!!v\<close>).\<close>

fun truthy_num :: "jsnum \<Rightarrow> bool" where
  "truthy_num (Num q) = (q \<noteq> 0)"
| "truthy_num NaN = False"

fun truthy :: "jsv \<Rightarrow> bool" where
  "truthy JUndefined = False"
| "truthy JNull = False"
| "truthy (JBool b) = b"
| "truthy (JNumber n) = truthy_num n"
| "truthy (JStr s) = (s \<noteq> [])"
| "truthy (JArr xs) = True"
| "truthy (JObj kvs) = True"

text \<open>\<open>a || b\<close> on values and on numbers.\<close>

definition js_or :: "jsv \<Rightarrow> jsv \<Rightarrow> jsv" where
  "js_or a b = (if truthy a then a else b)"


definition num_or :: "jsnum \<Rightarrow> jsnum \<Rightarrow> jsnum" where
  "num_or a b = (if truthy_num a then a else b)"

text \<open>\<open>a * b\<close> on numbers.\<close>

fun js_mul :: "jsnum \<Rightarrow> jsnum \<Rightarrow> jsnum" where
  "js_mul (Num a) (Num b) = Num (a * b)"
| "js_mul a b = NaN"

text \<open>\<open>a + b\<close> on numbers.\<close>

fun js_add :: "jsnum \<Rightarrow> jsnum \<Rightarrow> jsnum" where
  "js_add (Num a) (Num b) = Num (a + b)"
| "js_add a b = NaN"

text \<open>
  \<open>v?.k\<close>: \<open>undefined\<close> on \<open>undefined\<close> and \<open>null\<close>, the property otherwise. None of
  the keys the code reads (\<open>data\<close>, \<open>token\<close>, \<open>message\<close>, ...) exists on a primitive or an
  array, so those give \<open>undefined\<close>.
\<close>

fun opt_member :: "jsv \<Rightarrow> string \<Rightarrow> jsv" where
  "opt_member (JObj kvs) k = (case map_of kvs k of Some v \<Rightarrow> v | None \<Rightarrow> JUndefined)"
| "opt_member v k = JUndefined"

text \<open>\<open>v.k\<close>: a TypeError (\<open>None\<close>) on \<open>undefined\<close> and \<open>null\<close>.\<close>

fun get_member :: "jsv \<Rightarrow> string \<Rightarrow> jsv option" where
  "get_member JUndefined k = None"
| "get_member JNull k = None"
| "get_member v k = Some (opt_member v k)"

text \<open>
  What the JavaScript runtime supplies and the repository does not define: \<open>JSON.parse\<close>
  (\<open>None\<close> when it throws), \<open>JSON.stringify\<close>, the string conversion \<open>String(v)\<close> and
  the conversion of a string to a number.
\<close>

record runtime =
  JSON_parse :: "string \<Rightarrow> jsv option"
  JSON_stringify :: "jsv \<Rightarrow> string"
  ToString :: "jsv \<Rightarrow> string"
  StringToNumber :: "string \<Rightarrow> jsnum"

text \<open>\<open>Number(v)\<close>.\<close>

fun Number_js :: "runtime \<Rightarrow> jsv \<Rightarrow> jsnum" where
  "Number_js rt JUndefined = NaN"
| "Number_js rt JNull = Num 0"
| "Number_js rt (JBool b) = Num (if b then 1 else 0)"
| "Number_js rt (JNumber n) = n"
| "Number_js rt (JStr s) = StringToNumber rt s"
| "Number_js rt v = StringToNumber rt (ToString rt v)"

text \<open>\<open>s.includes(pat)\<close> and \<open>s.startsWith(pat)\<close> (the latter is \<^const>\<open>prefix\<close>).\<close>

fun js_includes :: "string \<Rightarrow> string \<Rightarrow> bool" where
  "js_includes [] pat = (pat = [])"
| "js_includes (c # cs) pat = (prefix pat (c # cs) \<or> js_includes cs pat)"

text \<open>
  \<open>s.replace(pat, rep)\<close> with a string pattern: the first occurrence is replaced. The
  replacements used here contain no \<open>$\<close>, so no replacement pattern is expanded.
\<close>

fun replace :: "string \<Rightarrow> string \<Rightarrow> string \<Rightarrow> string" where
  "replace [] pat rep = (if pat = [] then rep else [])"
| "replace (c # cs) pat rep =
     (if prefix pat (c # cs) then rep @ drop (length pat) (c # cs)
      else c # replace cs pat rep)"

text \<open>Decimal digits of a natural number: \<open>n.toString()\<close> and \<open>`${n}`\<close>.\<close>

definition digit :: "nat \<Rightarrow> char" where
  "digit d = ''0123456789'' ! (d mod 10)"

function toString_nat :: "nat \<Rightarrow> string" where
  "toString_nat n = (if n < 10 then [digit n] else toString_nat (n div 10) @ [digit (n mod 10)])"
  by pat_completeness auto
termination
  by (relation "measure id") auto

declare toString_nat.simps [simp del]

text \<open>\<open>s.slice(-k)\<close>: the last \<open>k\<close> characters, the whole string when it is shorter.\<close>

definition slice_last :: "nat \<Rightarrow> string \<Rightarrow> string" where
  "slice_last k s = drop (length s - k) s"

text \<open>\<open>s.padStart(k, '0')\<close>.\<close>

definition padStart0 :: "nat \<Rightarrow> string \<Rightarrow> string" where
  "padStart0 k s = replicate (k - length s) (CHR ''0'') @ s"

section \<open>The HTTP helper (api/index.ts)\<close>

text \<open>\<open>BASE_URL = import.meta.env.VITE_API_URL || 'http://localhost:8080'\<close>.\<close>

definition BASE_URL :: "string option \<Rightarrow> string" where
  "BASE_URL env =
     (case env of
        None \<Rightarrow> ''http://localhost:8080''
      | Some v \<Rightarrow> if v = [] then ''http://localhost:8080'' else v)"

definition ENDPOINT_MAP :: "(string \<times> string) list" where
  "ENDPOINT_MAP =
     [(''/api/order'', ''/api/orders''),
      (''/api/user'', ''/api/users''),
      (''/api/product'', ''/api/products''),
      (''/api/customer'', ''/api/customers''),
      (''/api/task'', ''/api/tasks'')]"

datatype error =
    ApiError nat jsv jsv
  | Error string
  | TypeError
  | NetworkError

text \<open>
  \<open>fetch\<close> is a parameter: it maps the request to a network failure or to a response
  with its status and body text. \<open>res.ok\<close> is a status in 200..299.
\<close>

record request =
  req_url :: string
  req_method :: "string option"
  req_authorization :: "string option"
  req_credentials :: string
  req_body :: "string option"

datatype fetch_result = Failed | Response nat string

definition ok :: "nat \<Rightarrow> bool" where
  "ok status = (200 \<le> status \<and> status \<le> 299)"

record options =
  opt_method :: "string option"
  opt_body :: "string option"

type_synonym storage = "string \<rightharpoonup> string"

definition isAuthEndpoint :: "string \<Rightarrow> bool" where
  "isAuthEndpoint url =
     (js_includes url ''/auth/login'' \<or> url = ''/api/auth/login'' \<or> js_includes url ''/auth/logout'')"

text \<open>One step of the \<open>forEach\<close> over the entries of \<open>ENDPOINT_MAP\<close>.\<close>

definition rewriteEntry :: "string \<Rightarrow> string \<times> string \<Rightarrow> string \<Rightarrow> string" where
  "rewriteEntry base e fullUrl =
     (if fullUrl = base @ fst e \<or> prefix (base @ fst e @ ''/'') fullUrl
      then replace fullUrl (fst e) (snd e) else fullUrl)"

definition fullUrl :: "string option \<Rightarrow> string \<Rightarrow> string" where
  "fullUrl env url =
     fold (rewriteEntry (BASE_URL env)) ENDPOINT_MAP
       (if prefix ''http'' url then url
        else BASE_URL env @ (if prefix ''/'' url then [] else ''/'') @ url)"

text \<open>
  The request \<open>apiRequest\<close> hands to \<open>fetch\<close>. No caller in the repository passes
  headers of its own, so of the headers only \<open>Authorization\<close> varies.
\<close>

definition requestOf :: "string option \<Rightarrow> storage \<Rightarrow> string \<Rightarrow> options \<Rightarrow> request" where
  "requestOf env store url opts =
     \<lparr> req_url = fullUrl env url,
       req_method = opt_method opts,
       req_authorization =
         (case store ''token'' of
            None \<Rightarrow> None
          | Some token \<Rightarrow>
              if token \<noteq> [] \<and> \<not> isAuthEndpoint url then Some (''Bearer '' @ token) else None),
       req_credentials = (if isAuthEndpoint url then ''same-origin'' else ''include''),
       req_body = opt_body opts \<rparr>"

record api_outcome =
  api_result :: "error + jsv"
  api_storage :: storage
  api_location :: "string option"

text \<open>
  \<open>apiRequest\<close>. The outer \<open>catch\<close> logs and rethrows, so every error leaves as it was
  thrown. \<open>api_location\<close> is the value assigned to \<open>window.location.href\<close>, if any.
\<close>

definition apiRequest ::
  "runtime \<Rightarrow> string option \<Rightarrow> (request \<Rightarrow> fetch_result) \<Rightarrow> storage \<Rightarrow> string \<Rightarrow> options
     \<Rightarrow> api_outcome" where
  "apiRequest rt env fetch store url opts =
     (case fetch (requestOf env store url opts) of
        Failed \<Rightarrow> \<lparr> api_result = Inl NetworkError, api_storage = store, api_location = None \<rparr>
      | Response status text \<Rightarrow>
          (let isDeleteRequest = (opt_method opts = Some ''DELETE'');
               parsed = (if text = [] then Some (JObj []) else JSON_parse rt text)
           in case (case parsed of
                      Some d \<Rightarrow> Some d
                    | None \<Rightarrow> if isDeleteRequest \<and> ok status then Some (JObj []) else None) of
                None \<Rightarrow>
                  \<lparr> api_result = Inl (ApiError status (JStr ''Invalid JSON response from server'') JUndefined),
                    api_storage = store, api_location = None \<rparr>
              | Some data \<Rightarrow>
                  if \<not> ok status then
                    (if status = 401 \<or> status = 403 then
                       (if js_includes url ''/auth/login'' then
                          \<lparr> api_result = Inl (ApiError status
                              (js_or (opt_member data ''message'')
                                 (if status = 401 then JStr ''Invalid email or password''
                                  else JStr ''You do not have permission to access this resource''))
                              data),
                            api_storage = store(''token'' := None), api_location = None \<rparr>
                        else
                          \<lparr> api_result = Inl (ApiError status (JStr ''Session expired. Please login again.'') data),
                            api_storage = store(''token'' := None), api_location = Some ''/login'' \<rparr>)
                     else
                       \<lparr> api_result = Inl (ApiError status
                           (js_or (opt_member data ''message'')
                              (js_or (opt_member data ''error'') (JStr ''API request failed'')))
                           data),
                         api_storage = store, api_location = None \<rparr>)
                  else
                    (case get_member data ''status'' of
                       None \<Rightarrow> \<lparr> api_result = Inl TypeError, api_storage = store, api_location = None \<rparr>
                     | Some st \<Rightarrow>
                         if st = JStr ''error'' then
                           \<lparr> api_result = Inl (ApiError status
                               (js_or (opt_member data ''message'') (JStr ''API request failed'')) data),
                             api_storage = store, api_location = None \<rparr>
                         else if url = ''/login'' then
                           \<lparr> api_result = Inr data, api_storage = store, api_location = None \<rparr>
                         else
                           \<lparr> api_result = Inr (js_or (opt_member data ''data'') data),
                             api_storage = store, api_location = None \<rparr>)))"

text \<open>\<open>email.trim()\<close> on ASCII white space.\<close>

definition is_space :: "char \<Rightarrow> bool" where
  "is_space c = (c = CHR '' '' \<or> c = CHR 0x09 \<or> c = CHR 0x0A \<or> c = CHR 0x0B \<or> c = CHR 0x0C
     \<or> c = CHR 0x0D)"

definition trim :: "string \<Rightarrow> string" where
  "trim s = rev (dropWhile is_space (rev (dropWhile is_space s)))"

record login_outcome =
  login_result :: "error + (jsv \<times> jsv)"
  login_storage :: storage
  login_location :: "string option"

text \<open>
  \<open>login\<close>. Whatever is thrown inside its \<open>try\<close> reaches the final \<open>catch\<close>, which
  rethrows an \<open>ApiError\<close> and replaces anything else by a fresh
  \<open>Error('Failed to login. Please try again.')\<close>. A successful result is the pair
  \<open>{token, user}\<close>.
\<close>

definition login_failed :: "storage \<Rightarrow> login_outcome" where
  "login_failed store =
     \<lparr> login_result = Inl (Error ''Failed to login. Please try again.''),
       login_storage = store, login_location = None \<rparr>"

definition login ::
  "runtime \<Rightarrow> string option \<Rightarrow> (request \<Rightarrow> fetch_result) \<Rightarrow> storage \<Rightarrow> string \<Rightarrow> string
     \<Rightarrow> login_outcome" where
  "login rt env fetch store email password =
     (case fetch \<lparr> req_url = BASE_URL env @ ''/login'', req_method = Some ''POST'',
                   req_authorization = None, req_credentials = ''include'',
                   req_body = Some (JSON_stringify rt
                     (JObj [(''email'', JStr (trim email)), (''password'', JStr password)])) \<rparr> of
        Failed \<Rightarrow> login_failed store
      | Response status text \<Rightarrow>
          (case JSON_parse rt text of
             None \<Rightarrow> login_failed store
           | Some data \<Rightarrow>
               if \<not> ok status then
                 \<lparr> login_result = Inl (ApiError status
                     (js_or (opt_member data ''message'')
                        (JStr (''Login failed with status '' @ toString_nat status)))
                     data),
                   login_storage = store, login_location = None \<rparr>
               else
                 (case get_member data ''data'' of
                    None \<Rightarrow> login_failed store
                  | Some d \<Rightarrow>
                      if \<not> truthy (opt_member d ''token'') then login_failed store
                      else
                        (let token = opt_member d ''token'';
                             user = opt_member d ''user'';
                             store1 = store(''token'' \<mapsto> ToString rt token)
                         in if truthy user then
                              \<lparr> login_result = Inr (token, user),
                                login_storage = store1(''user'' \<mapsto> JSON_stringify rt user),
                                login_location = None \<rparr>
                            else
                              (let out = apiRequest rt env fetch store1 ''/api/users/me''
                                           \<lparr> opt_method = None, opt_body = None \<rparr>
                               in case api_result out of
                                    Inr userResponse \<Rightarrow>
                                      \<lparr> login_result = Inr (token, userResponse),
                                        login_storage =
                                          (api_storage out)(''user'' \<mapsto> JSON_stringify rt userResponse),
                                        login_location = api_location out \<rparr>
                                  | Inl err \<Rightarrow>
                                      \<lparr> login_result = Inr (token, JObj [(''email'', JStr email)]),
                                        login_storage = api_storage out,
                                        login_location = api_location out \<rparr>)))))"

section \<open>Purchase-order page (pages/POManagementPage.tsx)\<close>

text \<open>
  The fields of an order and of a task that the page reads. Values that come from the
  server and are only tested for truthiness or compared with \<open>===\<close> stay untyped. The
  remaining fields of both (items, dates, notes, ...) are carried along unchanged by every
  operation here and are not modelled. Field names carry the prefix \<open>po_\<close> or
  \<open>task_\<close>; \<open>task_id\<close> is the source's \<open>_id\<close>.
\<close>

record PurchaseOrder =
  po_id :: string
  po_status :: jsv
  po_doCreated :: jsv
  po_doId :: jsv
  po_invoiceUrl :: jsv

record Task =
  task_id :: string
  task_orderId :: string
  task_status :: jsv
  task_assignedTo :: jsv
  task_purchaseOrderId :: jsv
  task_poId :: jsv
  task_purchaseOrder :: jsv

text \<open>\<open>Record<string, Task[]>\<close>: the groups in insertion order.\<close>

type_synonym order_tasks = "(string \<times> Task list) list"

definition areAllTasksCompleted :: "order_tasks \<Rightarrow> string \<Rightarrow> bool" where
  "areAllTasksCompleted orderTasks orderId =
     (let tasks = (case map_of orderTasks orderId of Some ts \<Rightarrow> ts | None \<Rightarrow> [])
      in if length tasks = 0 then False
         else list_all (\<lambda>task. task_status task = JStr ''Completed'') tasks)"

definition isInactive :: "PurchaseOrder \<Rightarrow> bool" where
  "isInactive order = (po_status order = JStr ''cancelled'' \<or> po_status order = JStr ''delivered'')"

text \<open>
  What the Actions cell of a row holds, in document order. \<open>ActionsMenu\<close> is the hover
  dropdown with its entries; \<open>Hint\<close> is the grey text shown instead of the View DO button;
  \<open>TextNode\<close> is a number that React prints when a \<open>&&\<close> chain stops at it.
\<close>

datatype control =
    Approve
  | CreateTask
  | ViewDO
  | SwitchToDO
  | CreateDO
  | ActionsMenu "control list"
  | MarkAsShipping
  | MarkAsDelivered
  | Complete
  | Hint string
  | GenerateInvoice
  | Cancel
  | CancelledLabel
  | TextNode jsv

text \<open>
  \<open>{a && b && <el/>}\<close>: React renders the element when every operand is truthy, and
  otherwise the first falsy operand, which shows only when it is a number.
\<close>

fun rendered_falsy :: "jsv \<Rightarrow> control list" where
  "rendered_falsy (JNumber n) = [TextNode (JNumber n)]"
| "rendered_falsy v = []"

definition privileged :: "jsv \<Rightarrow> bool" where
  "privileged currentUser =
     (opt_member currentUser ''role'' = JStr ''manager''
      \<or> opt_member currentUser ''role'' = JStr ''superadmin'')"

definition isUser :: "jsv \<Rightarrow> bool" where
  "isUser currentUser = (opt_member currentUser ''role'' = JStr ''user'')"

definition renderActions :: "jsv \<Rightarrow> order_tasks \<Rightarrow> PurchaseOrder \<Rightarrow> control list" where
  "renderActions currentUser orderTasks order =
     (if privileged currentUser \<and> po_status order = JStr ''pending'' \<and> \<not> isInactive order
      then [Approve] else [])
   @ (if privileged currentUser \<and> po_status order = JStr ''processing'' \<and> \<not> isInactive order
      then [CreateTask] else [])
   @ (if isUser currentUser \<and> po_status order = JStr ''processing'' \<and> \<not> isInactive order
      then (if truthy (po_doCreated order) then [ViewDO, SwitchToDO]
            else if areAllTasksCompleted orderTasks (po_id order) then [CreateDO]
            else [ActionsMenu [CreateDO]])
      else [])
   @ (if isUser currentUser \<and> po_status order = JStr ''processing''
      then (if truthy (po_doCreated order)
            then (if \<not> isInactive order then [MarkAsShipping] else [])
            else rendered_falsy (po_doCreated order))
      else [])
   @ (if isUser currentUser \<and> po_status order = JStr ''shipping'' \<and> \<not> isInactive order
      then [MarkAsDelivered] else [])
   @ (if isUser currentUser \<and> po_status order = JStr ''delivered'' \<and> \<not> isInactive order
      then [Complete]
         @ (if truthy (po_doCreated order) \<and> truthy (po_doId order) then [ViewDO]
            else [Hint (if \<not> truthy (po_doCreated order) then ''DO not created'' else ''DO ID missing'')])
         @ (if truthy (po_doCreated order) then [SwitchToDO] else rendered_falsy (po_doCreated order))
      else [])
   @ (if privileged currentUser \<and> po_status order = JStr ''delivered'' \<and> \<not> truthy (po_invoiceUrl order)
      then [GenerateInvoice] else [])
   @ (if privileged currentUser
         \<and> (po_status order = JStr ''pending'' \<or> po_status order = JStr ''processing'')
         \<and> \<not> isInactive order
      then [Cancel] else [])
   @ (if po_status order = JStr ''cancelled'' then [CancelledLabel] else [])"

text \<open>\<open>ToastThrown\<close> is \<open>toast.error\<close> with the message of an error the runtime threw.\<close>

datatype toast = ToastError string | ToastSuccess string | ToastThrown








section \<open>Submitting the delivery-order form from the page\<close>






section \<open>Task page (pages/TaskManagementPage.tsx)\<close>

record task_page =
  tasks :: "Task list"
  orderTasks :: order_tasks

record task_outcome =
  tp_result :: "error + unit"
  tp_next :: task_page
  tp_toasts :: "toast list"
  tp_storage :: storage
  tp_location :: "string option"

definition DELETE :: options where
  "DELETE = \<lparr> opt_method = Some ''DELETE'', opt_body = None \<rparr>"

text \<open>\<open>handleDeleteTask\<close>: the \<open>catch\<close> shows a toast and rethrows.\<close>

definition handleDeleteTask ::
  "runtime \<Rightarrow> string option \<Rightarrow> (request \<Rightarrow> fetch_result) \<Rightarrow> storage \<Rightarrow> task_page \<Rightarrow> string
     \<Rightarrow> task_outcome" where
  "handleDeleteTask rt env fetch store st taskId =
     (let out = apiRequest rt env fetch store (''/api/tasks/'' @ taskId) DELETE
      in case api_result out of
           Inr response \<Rightarrow>
             \<lparr> tp_result = Inr (),
               tp_next = st
                 \<lparr> tasks := filter (\<lambda>t. task_id t \<noteq> taskId) (tasks st),
                   orderTasks :=
                     map (\<lambda>(orderId, ts). (orderId, filter (\<lambda>t. task_id t \<noteq> taskId) ts))
                       (orderTasks st) \<rparr>,
               tp_toasts = [ToastSuccess ''Task deleted successfully''],
               tp_storage = api_storage out,
               tp_location = api_location out \<rparr>
         | Inl err \<Rightarrow>
             \<lparr> tp_result = Inl err,
               tp_next = st,
               tp_toasts = [ToastError ''Failed to delete task''],
               tp_storage = api_storage out,
               tp_location = api_location out \<rparr>)"

section \<open>Task table (components/TaskTable.tsx)\<close>

datatype row_control = StatusSelect | DetailsButton | RowSwitchToDO | DeleteButton

text \<open>
  \<open>handleStatusChangeWithTracking\<close>, on the set of recently completed task ids. The
  page's \<open>onStatusChange\<close> catches its own errors, so the \<open>await\<close> always returns.
\<close>

definition handleStatusChangeWithTracking :: "string set \<Rightarrow> string \<Rightarrow> string \<Rightarrow> string set" where
  "handleStatusChangeWithTracking recentlyCompleted taskId newStatus =
     (if newStatus = ''Completed'' then insert taskId recentlyCompleted else recentlyCompleted)"

text \<open>The value \<open>TaskTable\<close> passes as the \<open>showSwitchButton\<close> prop of a row.\<close>

definition showSwitchButton :: "string set \<Rightarrow> Task \<Rightarrow> bool" where
  "showSwitchButton recentlyCompleted task =
     (task_id task \<in> recentlyCompleted \<or> task_status task = JStr ''Completed'')"

text \<open>\<open>const buttonShouldShow = true; // Temporarily force show for debugging\<close>\<close>

definition buttonShouldShow :: bool where
  "buttonShouldShow = True"

text \<open>
  The controls in the Actions cell of a \<open>TaskRow\<close>. \<open>hasOnSwitchToDO\<close> and \<open>hasOnDelete\<close>
  say whether the callbacks were passed. The \<open>showSwitchButton\<close> prop is received and
  logged, and the JSX tests \<open>buttonShouldShow && onSwitchToDO\<close>.
\<close>

definition TaskRow :: "Task \<Rightarrow> bool \<Rightarrow> bool \<Rightarrow> jsv \<Rightarrow> bool \<Rightarrow> row_control list" where
  "TaskRow task hasOnDelete hasOnSwitchToDO currentUserRole showSwitchButton' =
     [StatusSelect, DetailsButton]
   @ (if buttonShouldShow \<and> hasOnSwitchToDO then [RowSwitchToDO] else [])
   @ (if hasOnDelete \<and> (currentUserRole = JStr ''superadmin'' \<or> currentUserRole = JStr ''manager'')
      then [DeleteButton] else [])"

text \<open>The filter of \<open>TaskTable\<close>: which tasks get a row.\<close>

definition visibleTask :: "jsv \<Rightarrow> jsv \<Rightarrow> Task \<Rightarrow> bool" where
  "visibleTask currentUserId currentUserRole task =
     (if currentUserRole = JStr ''superadmin'' \<or> currentUserRole = JStr ''manager'' then True
      else if \<not> truthy currentUserId then False
      else (case task_assignedTo task of
              JStr a \<Rightarrow> JStr a = currentUserId
            | JObj kvs \<Rightarrow> opt_member (JObj kvs) ''_id'' = currentUserId
            | JArr xs \<Rightarrow> JUndefined = currentUserId
            | _ \<Rightarrow> False))"

text \<open>
  The rows of \<open>TaskTable\<close>, each with its controls. A row always gets a switch callback:
  \<open>onSwitchToDO={onSwitchToDO || handleSwitchToDO}\<close>.
\<close>

definition TaskTable ::
  "Task list \<Rightarrow> bool \<Rightarrow> jsv \<Rightarrow> jsv \<Rightarrow> string set \<Rightarrow> (Task \<times> row_control list) list" where
  "TaskTable tasks' hasOnDelete currentUserId currentUserRole recentlyCompleted =
     map (\<lambda>task. (task, TaskRow task hasOnDelete True currentUserRole
                          (showSwitchButton recentlyCompleted task)))
       (filter (visibleTask currentUserId currentUserRole) tasks')"

section \<open>Delivery-order form (components/DOForm.tsx)\<close>

text \<open>The form state. Field names carry the prefix \<open>item_\<close> or \<open>fd_\<close>.\<close>

record DOItem =
  item_productName :: string
  item_quantity :: jsnum
  item_unit :: string
  item_unitPrice :: jsnum
  item_total :: jsnum

record DOFormData =
  fd_doNumber :: string
  fd_doDate :: string
  fd_supplierName :: string
  fd_supplierNumber :: string
  fd_supplierAddress :: string
  fd_deliveryAddress :: string
  fd_deliveryDate :: string
  fd_notes :: string
  fd_terms :: string
  fd_paymentTerms :: string
  fd_shippingMethod :: string
  fd_items :: "DOItem list"
  fd_totalAmount :: jsnum

text \<open>The calendar fields of \<open>new Date()\<close> in local time, as its getters return them.\<close>

record js_date =
  getFullYear :: nat
  getMonth :: nat
  getDate :: nat

text \<open>
  \<open>generateDONumber\<close>, run once by the mount effect. \<open>now\<close> is \<open>Date.now()\<close> and
  \<open>date\<close> is \<open>new Date()\<close>.
\<close>

definition generateDONumber :: "nat \<Rightarrow> js_date \<Rightarrow> DOFormData \<Rightarrow> DOFormData" where
  "generateDONumber now date prev =
     (let timestamp = slice_last 6 (toString_nat now);
          year = toString_nat (getFullYear date);
          month = padStart0 2 (toString_nat (getMonth date + 1));
          day = padStart0 2 (toString_nat (getDate date))
      in prev\<lparr> fd_doNumber := ''DO-'' @ year @ month @ day @ ''-'' @ timestamp \<rparr>)"

text \<open>
  An item of externally supplied DO data: the text fields as \<open>DOInfo\<close> declares them
  (\<open>None\<close> when absent), the numeric fields untyped, since \<open>formatItems\<close> coerces them.
\<close>

record raw_item =
  raw_productName :: "string option"
  raw_quantity :: jsv
  raw_unit :: "string option"
  raw_unitPrice :: jsv

definition str_or :: "string option \<Rightarrow> string \<Rightarrow> string" where
  "str_or v d = (case v of None \<Rightarrow> d | Some s \<Rightarrow> if s = [] then d else s)"

definition defaultItem :: DOItem where
  "defaultItem = \<lparr> item_productName = [], item_quantity = Num 1, item_unit = ''pcs'', item_unitPrice = Num 0,
     item_total = Num 0 \<rparr>"

text \<open>\<open>formatItems\<close>; \<open>None\<close> stands for a missing or non-array \<open>items\<close>.\<close>

definition formatItems :: "runtime \<Rightarrow> raw_item list option \<Rightarrow> DOItem list" where
  "formatItems rt items' =
     (case items' of
        None \<Rightarrow> [defaultItem]
      | Some xs \<Rightarrow>
          map (\<lambda>item.
                \<lparr> item_productName = str_or (raw_productName item) [],
                  item_quantity = num_or (Number_js rt (raw_quantity item)) (Num 1),
                  item_unit = str_or (raw_unit item) ''pcs'',
                  item_unitPrice = num_or (Number_js rt (raw_unitPrice item)) (Num 0),
                  item_total = js_mul (num_or (Number_js rt (raw_quantity item)) (Num 1))
                                 (num_or (Number_js rt (raw_unitPrice item)) (Num 0)) \<rparr>) xs)"

text \<open>\<open>addItem\<close>.\<close>

definition addItem :: "DOFormData \<Rightarrow> DOFormData" where
  "addItem prev = prev\<lparr> fd_items := fd_items prev @ [defaultItem] \<rparr>"

text \<open>\<open>xs.filter((_, i) => i !== index)\<close>.\<close>

definition filter_index :: "nat \<Rightarrow> 'a list \<Rightarrow> 'a list" where
  "filter_index index xs = map snd (filter (\<lambda>(i, x). i \<noteq> index) (enumerate 0 xs))"

text \<open>\<open>removeItem\<close>; the index is the position of the clicked row.\<close>

definition removeItem :: "nat \<Rightarrow> DOFormData \<Rightarrow> DOFormData" where
  "removeItem index formData =
     (if length (fd_items formData) \<le> 1 then formData
      else formData\<lparr> fd_items := filter_index index (fd_items formData) \<rparr>)"

text \<open>
  The four calls of \<open>handleItemChange\<close> in the JSX: the field and the value it is given
  (\<open>e.target.value\<close> for the text fields, \<open>Number(e.target.value)\<close> for the numeric ones).
\<close>

datatype item_change =
    SetProductName string
  | SetQuantity jsnum
  | SetUnit string
  | SetUnitPrice jsnum

text \<open>
  \<open>handleItemChange\<close> for the index of a rendered row. For an index past the end the
  source stores a partial item there; the form never calls it so, and the model gives
  \<open>None\<close>.
\<close>

fun changeItem :: "DOItem \<Rightarrow> item_change \<Rightarrow> DOItem" where
  "changeItem old (SetProductName v) = old\<lparr> item_productName := v \<rparr>"
| "changeItem old (SetUnit v) = old\<lparr> item_unit := v \<rparr>"
| "changeItem old (SetQuantity v) =
     old\<lparr> item_quantity := v, item_total := js_mul v (num_or (item_unitPrice old) (Num 0)) \<rparr>"
| "changeItem old (SetUnitPrice v) =
     old\<lparr> item_unitPrice := v, item_total := js_mul (num_or (item_quantity old) (Num 1)) v \<rparr>"

definition handleItemChange :: "nat \<Rightarrow> item_change \<Rightarrow> DOFormData \<Rightarrow> DOFormData option" where
  "handleItemChange index change formData =
     (if index < length (fd_items formData)
      then Some (formData\<lparr> fd_items := (fd_items formData)[index := changeItem (fd_items formData ! index) change] \<rparr>)
      else None)"

text \<open>The number in the Total cell of an item and in the Subtotal and Total lines,
  before \<open>toFixed(2)\<close>.\<close>

definition renderedItemTotal :: "DOItem \<Rightarrow> jsnum" where
  "renderedItemTotal item = js_mul (item_quantity item) (item_unitPrice item)"

definition renderedSubtotal :: "DOFormData \<Rightarrow> jsnum" where
  "renderedSubtotal formData =
     foldl (\<lambda>sum item. js_add sum (js_mul (item_quantity item) (item_unitPrice item))) (Num 0) (fd_items formData)"

definition renderedTotal :: "DOFormData \<Rightarrow> jsnum" where
  "renderedTotal formData =
     foldl (\<lambda>sum item. js_add sum (js_mul (item_quantity item) (item_unitPrice item))) (Num 0) (fd_items formData)"

section \<open>PO-prefilled form (components/DeliveryOrderForm.tsx)\<close>

text \<open>The form state of \<open>DeliveryOrderForm\<close>; its names carry the prefix \<open>dlv_\<close>.\<close>

record dlv_supplier =
  sup_name :: string
  sup_address :: string
  sup_contact :: string
  sup_phone :: string
  sup_email :: string

record dlv_item =
  dlv_item_id :: string
  dlv_productId :: string
  dlv_productName :: string
  dlv_description :: string
  dlv_quantity :: jsnum
  dlv_unit :: string
  dlv_unitPrice :: jsnum

record dlv_form =
  dlv_doNumber :: string
  dlv_poNumber :: string
  dlv_orderDate :: string
  dlv_deliveryDate :: string
  dlv_deliveryAddress :: string
  dlv_deliveryContact :: string
  dlv_deliveryPhone :: string
  dlv_paymentTerms :: string
  dlv_shippingMethod :: string
  dlv_notes :: string
  dlv_supplier :: dlv_supplier
  dlv_items :: "dlv_item list"

text \<open>The \<open>doNumber\<close> of the initial state: \<open>`DO-${new Date().getTime().toString().slice(-6)}`\<close>.\<close>

definition dlv_initial_doNumber :: "nat \<Rightarrow> string" where
  "dlv_initial_doNumber now = ''DO-'' @ slice_last 6 (toString_nat now)"

definition dlv_removeItem :: "nat \<Rightarrow> dlv_form \<Rightarrow> dlv_form" where
  "dlv_removeItem index formData =
     (if length (dlv_items formData) \<le> 1 then formData
      else formData\<lparr> dlv_items := filter_index index (dlv_items formData) \<rparr>)"

section \<open>The specification's DO number format\<close>

text \<open>
  \<open>DO-{YYYYMMDD}-{last 6 digits of the epoch-millisecond timestamp}\<close>, with \<open>YYYY\<close>,
  \<open>MM\<close>, \<open>DD\<close> the zero-padded year, month (1 to 12) and day. \<open>fixed k n\<close> is the
  \<open>k\<close> low decimal digits of \<open>n\<close>.
\<close>

fun fixed :: "nat \<Rightarrow> nat \<Rightarrow> string" where
  "fixed 0 n = []"
| "fixed (Suc k) n = fixed k (n div 10) @ [digit (n mod 10)]"

definition spec_doNumber :: "nat \<Rightarrow> js_date \<Rightarrow> string" where
  "spec_doNumber now date =
     ''DO-'' @ fixed 4 (getFullYear date) @ fixed 2 (getMonth date + 1) @ fixed 2 (getDate date)
     @ ''-'' @ fixed 6 now"

section \<open>Auxiliary notions for the endpoint rewriting\<close>




section \<open>Sample data\<close>

text \<open>A runtime whose \<open>JSON.parse\<close> always throws, and a task page with two tasks of one order.\<close>

definition rt0 :: runtime where
  "rt0 = \<lparr> JSON_parse = (\<lambda>s. None), JSON_stringify = (\<lambda>v. []), ToString = (\<lambda>v. []),
     StringToNumber = (\<lambda>s. NaN) \<rparr>"

definition page0 :: task_page where
  "page0 =
     (let t1 = \<lparr> task_id = ''t1'', task_orderId = ''po1'', task_status = JStr ''Pending'',
                  task_assignedTo = JStr ''u1'', task_purchaseOrderId = JUndefined,
                  task_poId = JUndefined, task_purchaseOrder = JUndefined \<rparr>;
          t2 = \<lparr> task_id = ''t2'', task_orderId = ''po1'', task_status = JStr ''Completed'',
                  task_assignedTo = JStr ''u1'', task_purchaseOrderId = JUndefined,
                  task_poId = JUndefined, task_purchaseOrder = JUndefined \<rparr>
      in \<lparr> tasks = [t1, t2], orderTasks = [(''po1'', [t1, t2])] \<rparr>)"




definition pendingTask :: Task where
  "pendingTask = \<lparr> task_id = ''t1'', task_orderId = ''po1'', task_status = JStr ''Pending'',
     task_assignedTo = JStr ''u1'', task_purchaseOrderId = JStr ''po1'',
     task_poId = JUndefined, task_purchaseOrder = JUndefined \<rparr>"

definition form0 :: DOFormData where
  "form0 = \<lparr> fd_doNumber = [], fd_doDate = ''2026-01-05'', fd_supplierName = [],
     fd_supplierNumber = [], fd_supplierAddress = [], fd_deliveryAddress = [],
     fd_deliveryDate = ''2026-01-12'', fd_notes = [], fd_terms = [], fd_paymentTerms = ''Net 30'',
     fd_shippingMethod = ''Standard'', fd_items = [defaultItem], fd_totalAmount = Num 0 \<rparr>"

definition form2 :: DOFormData where
  "form2 = form0\<lparr> fd_items := [defaultItem\<lparr> item_productName := ''bolt'' \<rparr>,
     defaultItem\<lparr> item_productName := ''nut'' \<rparr>] \<rparr>"

definition dlvItem :: "string \<Rightarrow> dlv_item" where
  "dlvItem n = \<lparr> dlv_item_id = n, dlv_productId = [], dlv_productName = n, dlv_description = [],
     dlv_quantity = Num 1, dlv_unit = ''pcs'', dlv_unitPrice = Num 0 \<rparr>"

definition dlvForm2 :: dlv_form where
  "dlvForm2 = \<lparr> dlv_doNumber = ''DO-123456'', dlv_poNumber = ''PO-000PO1'',
     dlv_orderDate = ''2026-01-05'', dlv_deliveryDate = ''2026-01-12'', dlv_deliveryAddress = [],
     dlv_deliveryContact = [], dlv_deliveryPhone = [], dlv_paymentTerms = ''Net 30'',
     dlv_shippingMethod = ''Standard'', dlv_notes = [],
     dlv_supplier = \<lparr> sup_name = [], sup_address = [], sup_contact = [], sup_phone = [],
       sup_email = [] \<rparr>,
     dlv_items = [dlvItem ''bolt'', dlvItem ''nut''] \<rparr>"

section \<open>Endpoint rewriting\<close>

subsection \<open>Strings\<close>





subsection \<open>One entry of the endpoint table\<close>




subsection \<open>The whole table\<close>















section \<open>Row actions of the purchase-order page\<close>

lemma isInactive_delivered: "po_status order = JStr ''delivered'' \<Longrightarrow> isInactive order"
  by (simp add: isInactive_def)

lemma not_user_and_privileged: "isUser u \<Longrightarrow> \<not> privileged u"
  by (simp add: isUser_def privileged_def)

text \<open>
  The rows of the table of section 4.1 that the page does render. \<open>doCreated\<close> is taken
  at its declared type, a boolean or absent.
\<close>

lemma renderActions_pending_privileged:
  "privileged u \<Longrightarrow> po_status order = JStr ''pending'' \<Longrightarrow>
   renderActions u ts order = [Approve, Cancel]"
  using not_user_and_privileged [of u] by (auto simp: renderActions_def isInactive_def)

lemma renderActions_processing_privileged:
  "privileged u \<Longrightarrow> po_status order = JStr ''processing'' \<Longrightarrow>
   renderActions u ts order = [CreateTask, Cancel]"
  using not_user_and_privileged [of u] by (auto simp: renderActions_def isInactive_def)

lemma renderActions_processing_user_do:
  "isUser u \<Longrightarrow> po_status order = JStr ''processing'' \<Longrightarrow> truthy (po_doCreated order) \<Longrightarrow>
   renderActions u ts order = [ViewDO, SwitchToDO, MarkAsShipping]"
  using not_user_and_privileged [of u] by (simp add: renderActions_def isInactive_def)

lemma renderActions_shipping_user:
  "isUser u \<Longrightarrow> po_status order = JStr ''shipping'' \<Longrightarrow>
   renderActions u ts order = [MarkAsDelivered]"
  using not_user_and_privileged [of u] by (simp add: renderActions_def isInactive_def)

lemma renderActions_delivered_privileged:
  "privileged u \<Longrightarrow> po_status order = JStr ''delivered'' \<Longrightarrow> \<not> truthy (po_invoiceUrl order) \<Longrightarrow>
   renderActions u ts order = [GenerateInvoice]"
  using not_user_and_privileged [of u] by (auto simp: renderActions_def isInactive_def)

lemma renderActions_cancelled:
  "po_status order = JStr ''cancelled'' \<Longrightarrow> renderActions u ts order = [CancelledLabel]"
  by (simp add: renderActions_def isInactive_def)

lemma renderActions_delivered_user:
  "isUser u \<Longrightarrow> po_status order = JStr ''delivered'' \<Longrightarrow> renderActions u ts order = []"
  using not_user_and_privileged [of u] by (simp add: renderActions_def isInactive_def)

text \<open>
  C1. For a delivered order with a delivery order and the role \<open>user\<close>, the table of
  section 4.1 lists Complete, View DO and Switch to DO. The block that renders them is
  guarded by \<open>order.status === 'delivered' && !isInactive(order)\<close>, and \<open>isInactive\<close> holds
  of every delivered order, so the cell is empty.
\<close>

theorem delivered_order_shows_no_user_actions:
  "renderActions (JObj [(''role'', JStr ''user'')]) []
     \<lparr> po_id = ''po1'', po_status = JStr ''delivered'', po_doCreated = JBool True,
       po_doId = JStr ''do1'', po_invoiceUrl = JUndefined \<rparr> = []"
  by (simp add: renderActions_def isInactive_def isUser_def privileged_def)

text \<open>
  C3. An order in status \<open>processing\<close>, seen by role \<open>user\<close>, with no delivery order and
  no task grouped under its id: \<open>areAllTasksCompleted\<close> is false and the cell holds the
  Actions dropdown with the entry Create DO, and nothing else (so no direct Create DO
  button).
\<close>

theorem no_tasks_gives_actions_dropdown:
  assumes "isUser currentUser"
    and "po_status order = JStr ''processing''"
    and "po_doCreated order = JBool False \<or> po_doCreated order = JUndefined"
    and "map_of orderTasks' (po_id order) = None \<or> map_of orderTasks' (po_id order) = Some []"
  shows "areAllTasksCompleted orderTasks' (po_id order) = False
       \<and> renderActions currentUser orderTasks' order = [ActionsMenu [CreateDO]]"
proof -
  have a: "areAllTasksCompleted orderTasks' (po_id order) = False"
    using assms(4) by (auto simp: areAllTasksCompleted_def)
  have "renderActions currentUser orderTasks' order = [ActionsMenu [CreateDO]]"
    using assms(1-3) a not_user_and_privileged [of currentUser]
    by (auto simp: renderActions_def isInactive_def)
  with a show ?thesis by simp
qed

theorem no_tasks_gives_actions_dropdown_witness:
  "isUser (JObj [(''role'', JStr ''user'')])
   \<and> areAllTasksCompleted [] ''po1'' = False
   \<and> renderActions (JObj [(''role'', JStr ''user'')]) []
        \<lparr> po_id = ''po1'', po_status = JStr ''processing'', po_doCreated = JBool False,
          po_doId = JUndefined, po_invoiceUrl = JUndefined \<rparr> = [ActionsMenu [CreateDO]]"
  using no_tasks_gives_actions_dropdown [of "JObj [(''role'', JStr ''user'')]"
      "\<lparr> po_id = ''po1'', po_status = JStr ''processing'', po_doCreated = JBool False,
         po_doId = JUndefined, po_invoiceUrl = JUndefined \<rparr>" "[]"]
  by (simp add: isUser_def)

section \<open>Resolving the delivery-order id\<close>

lemma js_or_find: "js_or a b = (case find truthy [a] of Some v \<Rightarrow> v | None \<Rightarrow> b)"
  by (simp add: js_or_def)














section \<open>Login without a token\<close>

text \<open>
  A login response with an OK status whose body carries no truthy \<open>data.token\<close>: nothing
  is written to the storage, and the error that leaves \<open>login\<close> is the generic one of the
  final \<open>catch\<close>.
\<close>

lemma login_without_token:
  assumes "fetch \<lparr> req_url = BASE_URL env @ ''/login'', req_method = Some ''POST'',
                   req_authorization = None, req_credentials = ''include'',
                   req_body = Some (JSON_stringify rt
                     (JObj [(''email'', JStr (trim email)), (''password'', JStr password)])) \<rparr>
             = Response status text"
    and "ok status"
    and "JSON_parse rt text = Some data"
    and "\<not> truthy (opt_member (opt_member data ''data'') ''token'')"
  shows "login rt env fetch store email password =
           \<lparr> login_result = Inl (Error ''Failed to login. Please try again.''),
             login_storage = store, login_location = None \<rparr>"
proof (cases "get_member data ''data''")
  case None
  then show ?thesis using assms by (simp add: login_def login_failed_def)
next
  case (Some d)
  then have "d = opt_member data ''data''" by (cases data) simp_all
  then show ?thesis using assms Some by (simp add: login_def login_failed_def)
qed

text \<open>
  C5. The login response \<open>200 {"data": {}}\<close> has no token. \<open>login\<close> throws
  \<open>Error('Authentication failed: No token received')\<close> inside its \<open>try\<close>; its own
  \<open>catch\<close> replaces every error that is not an \<open>ApiError\<close>, so the caller receives
  \<open>Error('Failed to login. Please try again.')\<close>. Neither \<open>token\<close> nor \<open>user\<close> is
  written.
\<close>

theorem login_without_token_rejects_with_generic_error:
  "login
     \<lparr> JSON_parse = (\<lambda>s. if s = ''{\"data\":{}}'' then Some (JObj [(''data'', JObj [])]) else None),
       JSON_stringify = (\<lambda>v. []), ToString = (\<lambda>v. []), StringToNumber = (\<lambda>s. NaN) \<rparr>
     None (\<lambda>r. Response 200 ''{\"data\":{}}'') Map.empty ''a@b.c'' ''secret''
   = \<lparr> login_result = Inl (Error ''Failed to login. Please try again.''),
       login_storage = Map.empty, login_location = None \<rparr>"
  by (simp add: login_def login_failed_def ok_def)

section \<open>Deleting a task\<close>

lemma apiRequest_empty_body:
  assumes "fetch (requestOf env store url opts) = Response status []"
    and "ok status" and "url \<noteq> ''/login''"
  shows "apiRequest rt env fetch store url opts =
           \<lparr> api_result = Inr (JObj []), api_storage = store, api_location = None \<rparr>"
  using assms by (simp add: apiRequest_def js_or_def)

lemma task_url_not_login: "''/api/tasks/'' @ taskId \<noteq> ''/login''"
  by simp

lemma handleDeleteTask_success:
  assumes "api_result (apiRequest rt env fetch store (''/api/tasks/'' @ taskId) DELETE) = Inr v"
  shows "tp_result (handleDeleteTask rt env fetch store st taskId) = Inr ()"
    and "tasks (tp_next (handleDeleteTask rt env fetch store st taskId))
           = filter (\<lambda>t. task_id t \<noteq> taskId) (tasks st)"
    and "orderTasks (tp_next (handleDeleteTask rt env fetch store st taskId))
           = map (\<lambda>(orderId, ts). (orderId, filter (\<lambda>t. task_id t \<noteq> taskId) ts)) (orderTasks st)"
  using assms by (simp_all add: handleDeleteTask_def Let_def)

lemma handleDeleteTask_failure:
  assumes "api_result (apiRequest rt env fetch store (''/api/tasks/'' @ taskId) DELETE) = Inl err"
  shows "tp_result (handleDeleteTask rt env fetch store st taskId) = Inl err"
    and "tp_next (handleDeleteTask rt env fetch store st taskId) = st"
  using assms by (simp_all add: handleDeleteTask_def Let_def)

text \<open>A request that fails on the network, or is answered with a status outside 200..299,
  makes \<open>apiRequest\<close> reject, whatever the body.\<close>

lemma apiRequest_rejects_failed_response:
  assumes "fetch (requestOf env store url opts) = Failed
         \<or> (fetch (requestOf env store url opts) = Response status body \<and> \<not> ok status)"
  shows "\<exists>err. api_result (apiRequest rt env fetch store url opts) = Inl err"
  using assms
proof
  assume "fetch (requestOf env store url opts) = Failed"
  then show ?thesis by (simp add: apiRequest_def)
next
  assume a: "fetch (requestOf env store url opts) = Response status body \<and> \<not> ok status"
  show ?thesis
  proof (cases "if body = [] then Some (JObj []) else JSON_parse rt body")
    case None
    then show ?thesis using a by (simp add: apiRequest_def)
  next
    case (Some data)
    then show ?thesis using a by (simp add: apiRequest_def)
  qed
qed

lemma handleDeleteTask_failure_toast:
  assumes "api_result (apiRequest rt env fetch store (''/api/tasks/'' @ taskId) DELETE) = Inl err"
  shows "tp_toasts (handleDeleteTask rt env fetch store st taskId) = [ToastError ''Failed to delete task'']"
  using assms by (simp add: handleDeleteTask_def Let_def)

text \<open>
  C6. When the DELETE of a task is answered with an OK status and an empty body,
  \<open>apiRequest\<close> returns the empty object and raises nothing; \<open>handleDeleteTask\<close> then
  returns normally, keeps in the flat list exactly the tasks with another id, and keeps the
  same groups in \<open>orderTasks\<close>, each without the task. When the request fails on the
  network or is answered with a status outside 200..299, \<open>apiRequest\<close> rejects, and
  \<open>handleDeleteTask\<close> rejects with the same error, shows the failure toast and leaves both
  lists as they were; the same holds for every other rejection of \<open>apiRequest\<close>.
\<close>

theorem delete_with_empty_body_removes_task:
  "(fetch (requestOf env store (''/api/tasks/'' @ taskId) DELETE) = Response status [] \<and> ok status
      \<longrightarrow>
        api_result (apiRequest rt env fetch store (''/api/tasks/'' @ taskId) DELETE) = Inr (JObj [])
      \<and> tp_result (handleDeleteTask rt env fetch store st taskId) = Inr ()
      \<and> tasks (tp_next (handleDeleteTask rt env fetch store st taskId))
           = filter (\<lambda>t. task_id t \<noteq> taskId) (tasks st)
      \<and> taskId \<notin> task_id ` set (tasks (tp_next (handleDeleteTask rt env fetch store st taskId)))
      \<and> map fst (orderTasks (tp_next (handleDeleteTask rt env fetch store st taskId)))
           = map fst (orderTasks st)
      \<and> map snd (orderTasks (tp_next (handleDeleteTask rt env fetch store st taskId)))
           = map (filter (\<lambda>t. task_id t \<noteq> taskId)) (map snd (orderTasks st))
      \<and> list_all (\<lambda>(orderId, ts). taskId \<notin> task_id ` set ts)
           (orderTasks (tp_next (handleDeleteTask rt env fetch store st taskId))))
   \<and> (fetch (requestOf env store (''/api/tasks/'' @ taskId) DELETE) = Failed
        \<or> (fetch (requestOf env store (''/api/tasks/'' @ taskId) DELETE) = Response status body
            \<and> \<not> ok status)
      \<longrightarrow>
        (\<exists>e. api_result (apiRequest rt env fetch store (''/api/tasks/'' @ taskId) DELETE) = Inl e
             \<and> tp_result (handleDeleteTask rt env fetch store st taskId) = Inl e)
      \<and> tp_next (handleDeleteTask rt env fetch store st taskId) = st
      \<and> tp_toasts (handleDeleteTask rt env fetch store st taskId) = [ToastError ''Failed to delete task''])
   \<and> (api_result (apiRequest rt env fetch store (''/api/tasks/'' @ taskId) DELETE) = Inl err
      \<longrightarrow>
        tp_result (handleDeleteTask rt env fetch store st taskId) = Inl err
      \<and> tp_next (handleDeleteTask rt env fetch store st taskId) = st)"
proof (intro conjI impI)
  assume a: "fetch (requestOf env store (''/api/tasks/'' @ taskId) DELETE) = Response status [] \<and> ok status"
  show r: "api_result (apiRequest rt env fetch store (''/api/tasks/'' @ taskId) DELETE) = Inr (JObj [])"
    using apiRequest_empty_body [of fetch env store "''/api/tasks/'' @ taskId" DELETE status rt]
      a task_url_not_login [of taskId] by simp
  note s = handleDeleteTask_success [OF r, of st]
  show "tp_result (handleDeleteTask rt env fetch store st taskId) = Inr ()"
    by (rule s(1))
  show "tasks (tp_next (handleDeleteTask rt env fetch store st taskId))
      = filter (\<lambda>t. task_id t \<noteq> taskId) (tasks st)"
    by (rule s(2))
  show "taskId \<notin> task_id ` set (tasks (tp_next (handleDeleteTask rt env fetch store st taskId)))"
    unfolding s(2) by auto
  show "map fst (orderTasks (tp_next (handleDeleteTask rt env fetch store st taskId)))
      = map fst (orderTasks st)"
    unfolding s(3) by (simp add: case_prod_unfold comp_def)
  show "map snd (orderTasks (tp_next (handleDeleteTask rt env fetch store st taskId)))
      = map (filter (\<lambda>t. task_id t \<noteq> taskId)) (map snd (orderTasks st))"
    unfolding s(3) by (simp add: case_prod_unfold comp_def)
  show "list_all (\<lambda>(orderId, ts). taskId \<notin> task_id ` set ts)
          (orderTasks (tp_next (handleDeleteTask rt env fetch store st taskId)))"
    unfolding s(3) list_all_iff by auto
next
  assume b: "fetch (requestOf env store (''/api/tasks/'' @ taskId) DELETE) = Failed
        \<or> (fetch (requestOf env store (''/api/tasks/'' @ taskId) DELETE) = Response status body
            \<and> \<not> ok status)"
  then obtain e where e: "api_result (apiRequest rt env fetch store (''/api/tasks/'' @ taskId) DELETE) = Inl e"
    using apiRequest_rejects_failed_response by blast
  show "\<exists>e. api_result (apiRequest rt env fetch store (''/api/tasks/'' @ taskId) DELETE) = Inl e
             \<and> tp_result (handleDeleteTask rt env fetch store st taskId) = Inl e"
    using e handleDeleteTask_failure(1) [OF e] by blast
  show "tp_next (handleDeleteTask rt env fetch store st taskId) = st"
    by (rule handleDeleteTask_failure(2) [OF e])
  show "tp_toasts (handleDeleteTask rt env fetch store st taskId) = [ToastError ''Failed to delete task'']"
    by (rule handleDeleteTask_failure_toast [OF e])
next
  assume f: "api_result (apiRequest rt env fetch store (''/api/tasks/'' @ taskId) DELETE) = Inl err"
  show "tp_result (handleDeleteTask rt env fetch store st taskId) = Inl err"
    by (rule handleDeleteTask_failure(1) [OF f])
  show "tp_next (handleDeleteTask rt env fetch store st taskId) = st"
    by (rule handleDeleteTask_failure(2) [OF f])
qed

theorem delete_with_empty_body_removes_task_witness:
  "map task_id (tasks (tp_next (handleDeleteTask rt0 None (\<lambda>r. Response 204 []) Map.empty page0 ''t1'')))
     = [''t2'']
   \<and> map (\<lambda>(orderId, ts). (orderId, map task_id ts))
        (orderTasks (tp_next (handleDeleteTask rt0 None (\<lambda>r. Response 204 []) Map.empty page0 ''t1'')))
     = [(''po1'', [''t2''])]
   \<and> tp_result (handleDeleteTask rt0 None (\<lambda>r. Response 204 []) Map.empty page0 ''t1'') = Inr ()
   \<and> tp_result (handleDeleteTask rt0 None (\<lambda>r. Response 500 []) Map.empty page0 ''t1'')
     = Inl (ApiError 500 (JStr ''API request failed'') (JObj []))
   \<and> tp_next (handleDeleteTask rt0 None (\<lambda>r. Response 500 []) Map.empty page0 ''t1'') = page0
   \<and> tp_result (handleDeleteTask rt0 None (\<lambda>r. Response 404 ''Not Found'') Map.empty page0 ''t1'')
     = Inl (ApiError 404 (JStr ''Invalid JSON response from server'') JUndefined)
   \<and> tp_next (handleDeleteTask rt0 None (\<lambda>r. Response 404 ''Not Found'') Map.empty page0 ''t1'') = page0
   \<and> tp_result (handleDeleteTask rt0 None (\<lambda>r. Failed) Map.empty page0 ''t1'') = Inl NetworkError
   \<and> tp_next (handleDeleteTask rt0 None (\<lambda>r. Failed) Map.empty page0 ''t1'') = page0"
proof -
  have ok: "(\<lambda>r. Response 204 []) (requestOf None Map.empty (''/api/tasks/'' @ ''t1'') DELETE)
      = Response 204 [] \<and> ok 204"
    by (simp add: ok_def)
  have bad500: "(\<lambda>r. Response 500 []) (requestOf None Map.empty (''/api/tasks/'' @ ''t1'') DELETE) = Failed
      \<or> ((\<lambda>r. Response 500 []) (requestOf None Map.empty (''/api/tasks/'' @ ''t1'') DELETE) = Response 500 []
          \<and> \<not> ok 500)"
    by (simp add: ok_def)
  have bad404: "(\<lambda>r. Response 404 ''Not Found'') (requestOf None Map.empty (''/api/tasks/'' @ ''t1'') DELETE) = Failed
      \<or> ((\<lambda>r. Response 404 ''Not Found'') (requestOf None Map.empty (''/api/tasks/'' @ ''t1'') DELETE)
            = Response 404 ''Not Found'' \<and> \<not> ok 404)"
    by (simp add: ok_def)
  have net: "(\<lambda>r. Failed) (requestOf None Map.empty (''/api/tasks/'' @ ''t1'') DELETE) = Failed
      \<or> ((\<lambda>r. Failed) (requestOf None Map.empty (''/api/tasks/'' @ ''t1'') DELETE) = Response 0 []
          \<and> \<not> ok 0)"
    by simp
  have a500: "api_result (apiRequest rt0 None (\<lambda>r. Response 500 []) Map.empty (''/api/tasks/'' @ ''t1'') DELETE)
      = Inl (ApiError 500 (JStr ''API request failed'') (JObj []))"
    by (simp add: apiRequest_def ok_def js_or_def)
  have a404: "api_result (apiRequest rt0 None (\<lambda>r. Response 404 ''Not Found'') Map.empty (''/api/tasks/'' @ ''t1'') DELETE)
      = Inl (ApiError 404 (JStr ''Invalid JSON response from server'') JUndefined)"
    by (simp add: apiRequest_def ok_def rt0_def DELETE_def)
  have anet: "api_result (apiRequest rt0 None (\<lambda>r. Failed) Map.empty (''/api/tasks/'' @ ''t1'') DELETE)
      = Inl NetworkError"
    by (simp add: apiRequest_def)
  note t1 = delete_with_empty_body_removes_task
    [where fetch = "\<lambda>r. Response 204 []" and env = None and store = Map.empty and taskId = "''t1''"
       and status = 204 and rt = rt0 and st = page0]
  note t2 = delete_with_empty_body_removes_task
    [where fetch = "\<lambda>r. Response 500 []" and env = None and store = Map.empty and taskId = "''t1''"
       and status = 500 and body = "[]" and rt = rt0 and st = page0]
  note t3 = delete_with_empty_body_removes_task
    [where fetch = "\<lambda>r. Response 404 ''Not Found''" and env = None and store = Map.empty
       and taskId = "''t1''" and status = 404 and body = "''Not Found''" and rt = rt0 and st = page0]
  note t4 = delete_with_empty_body_removes_task
    [where fetch = "\<lambda>r. Failed" and env = None and store = Map.empty and taskId = "''t1''"
       and status = 0 and body = "[]" and rt = rt0 and st = page0]
  from t1 ok have s: "tp_result (handleDeleteTask rt0 None (\<lambda>r. Response 204 []) Map.empty page0 ''t1'') = Inr ()"
    "tasks (tp_next (handleDeleteTask rt0 None (\<lambda>r. Response 204 []) Map.empty page0 ''t1''))
       = filter (\<lambda>t. task_id t \<noteq> ''t1'') (tasks page0)"
    "map fst (orderTasks (tp_next (handleDeleteTask rt0 None (\<lambda>r. Response 204 []) Map.empty page0 ''t1'')))
       = map fst (orderTasks page0)"
    "map snd (orderTasks (tp_next (handleDeleteTask rt0 None (\<lambda>r. Response 204 []) Map.empty page0 ''t1'')))
       = map (filter (\<lambda>t. task_id t \<noteq> ''t1'')) (map snd (orderTasks page0))"
    by blast+
  from t2 bad500 a500 have f500:
    "tp_result (handleDeleteTask rt0 None (\<lambda>r. Response 500 []) Map.empty page0 ''t1'')
       = Inl (ApiError 500 (JStr ''API request failed'') (JObj []))"
    "tp_next (handleDeleteTask rt0 None (\<lambda>r. Response 500 []) Map.empty page0 ''t1'') = page0"
    by auto
  from t3 bad404 a404 have f404:
    "tp_result (handleDeleteTask rt0 None (\<lambda>r. Response 404 ''Not Found'') Map.empty page0 ''t1'')
       = Inl (ApiError 404 (JStr ''Invalid JSON response from server'') JUndefined)"
    "tp_next (handleDeleteTask rt0 None (\<lambda>r. Response 404 ''Not Found'') Map.empty page0 ''t1'') = page0"
    by auto
  from t4 net anet have fnet:
    "tp_result (handleDeleteTask rt0 None (\<lambda>r. Failed) Map.empty page0 ''t1'') = Inl NetworkError"
    "tp_next (handleDeleteTask rt0 None (\<lambda>r. Failed) Map.empty page0 ''t1'') = page0"
    by auto
  have g: "map (\<lambda>(orderId, ts). (orderId, map task_id ts)) xs
      = zip (map fst xs) (map (map task_id) (map snd xs))" for xs :: order_tasks
    by (induction xs) auto
  show ?thesis
    unfolding g s f500 f404 fnet by (simp add: page0_def Let_def)
qed

section \<open>The switch control of a task row\<close>

text \<open>
  \<open>TaskTable\<close> computes \<open>showSwitchButton\<close> as the specification describes, and a completed
  status adds the task to the session set.
\<close>

lemma showSwitchButton_iff:
  "showSwitchButton recentlyCompleted task \<longleftrightarrow>
     task_status task = JStr ''Completed'' \<or> task_id task \<in> recentlyCompleted"
  by (auto simp: showSwitchButton_def)

lemma completed_is_tracked:
  "taskId \<in> handleStatusChangeWithTracking recentlyCompleted taskId ''Completed''"
  by (simp add: handleStatusChangeWithTracking_def)

text \<open>The row ignores the prop: the control is there for every row.\<close>

lemma TaskTable_always_shows_switch:
  "(task, controls) \<in> set (TaskTable ts hasOnDelete uid role recentlyCompleted)
   \<Longrightarrow> RowSwitchToDO \<in> set controls"
  by (auto simp: TaskTable_def TaskRow_def buttonShouldShow_def)

text \<open>
  C7. A pending task that was not completed in this session has \<open>showSwitchButton\<close>
  false, and by the specification its row shows no Switch to DO control. \<open>TaskRow\<close> tests
  \<open>buttonShouldShow && onSwitchToDO\<close> with \<open>buttonShouldShow\<close> fixed to \<open>true\<close>, so
  the row of that task, rendered for a manager, holds the control.
\<close>

theorem pending_task_row_shows_switch_to_DO:
  "showSwitchButton {} pendingTask = False
   \<and> TaskTable [pendingTask] True (JStr ''u9'') (JStr ''manager'') {}
       = [(pendingTask, [StatusSelect, DetailsButton, RowSwitchToDO, DeleteButton])]"
  by (simp add: showSwitchButton_def TaskTable_def TaskRow_def buttonShouldShow_def
      visibleTask_def pendingTask_def)

section \<open>Removing an item\<close>

lemma filter_enumerate_above:
  "k < n \<Longrightarrow> map snd (filter (\<lambda>(i, x). i \<noteq> k) (enumerate n xs)) = xs"
  by (induction xs arbitrary: n) auto

lemma filter_enumerate_at:
  "map snd (filter (\<lambda>(i, x). i \<noteq> n + k) (enumerate n xs)) = take k xs @ drop (Suc k) xs"
proof (induction xs arbitrary: n k)
  case Nil
  then show ?case by simp
next
  case (Cons x xs)
  show ?case
  proof (cases k)
    case 0
    then show ?thesis using filter_enumerate_above [of n "Suc n" xs] by simp
  next
    case (Suc j)
    then show ?thesis using Cons.IH [of "Suc n" j] by simp
  qed
qed

lemma filter_index_take_drop: "filter_index index xs = take index xs @ drop (Suc index) xs"
  using filter_enumerate_at [of 0 index xs] by (simp add: filter_index_def)

lemma take_drop_nonempty: "1 < length xs \<Longrightarrow> take i xs @ drop (Suc i) xs \<noteq> []"
  by (cases xs; cases i) auto

text \<open>
  C10. In both forms \<open>removeItem\<close> leaves a form with at most one item as it is; on a
  longer list it drops the item at the index (none, when the index is past the end),
  keeps the other items in order and every other field, and the list stays non-empty.
\<close>

theorem removeItem_never_empties_the_list:
  "(length (fd_items f) \<le> 1 \<longrightarrow> removeItem i f = f)
   \<and> (1 < length (fd_items f) \<longrightarrow>
        removeItem i f = f\<lparr> fd_items := take i (fd_items f) @ drop (Suc i) (fd_items f) \<rparr>
        \<and> fd_items (removeItem i f) \<noteq> [])
   \<and> (length (dlv_items g) \<le> 1 \<longrightarrow> dlv_removeItem i g = g)
   \<and> (1 < length (dlv_items g) \<longrightarrow>
        dlv_removeItem i g = g\<lparr> dlv_items := take i (dlv_items g) @ drop (Suc i) (dlv_items g) \<rparr>
        \<and> dlv_items (dlv_removeItem i g) \<noteq> [])"
proof (intro conjI impI)
  show "removeItem i f = f" if "length (fd_items f) \<le> 1"
    using that by (simp add: removeItem_def)
  show "dlv_removeItem i g = g" if "length (dlv_items g) \<le> 1"
    using that by (simp add: dlv_removeItem_def)
  show "removeItem i f = f\<lparr> fd_items := take i (fd_items f) @ drop (Suc i) (fd_items f) \<rparr>"
    if "1 < length (fd_items f)"
    using that by (simp add: removeItem_def filter_index_take_drop)
  then show "fd_items (removeItem i f) \<noteq> []" if "1 < length (fd_items f)"
    using that take_drop_nonempty [of "fd_items f" i] by simp
  show "dlv_removeItem i g = g\<lparr> dlv_items := take i (dlv_items g) @ drop (Suc i) (dlv_items g) \<rparr>"
    if "1 < length (dlv_items g)"
    using that by (simp add: dlv_removeItem_def filter_index_take_drop)
  then show "dlv_items (dlv_removeItem i g) \<noteq> []" if "1 < length (dlv_items g)"
    using that take_drop_nonempty [of "dlv_items g" i] by simp
qed

theorem removeItem_never_empties_the_list_witness:
  "removeItem 0 form0 = form0
   \<and> removeItem 0 form2 = form2\<lparr> fd_items := [defaultItem\<lparr> item_productName := ''nut'' \<rparr>] \<rparr>
   \<and> fd_items (removeItem 0 form2) \<noteq> []
   \<and> dlv_removeItem 1 dlvForm2 = dlvForm2\<lparr> dlv_items := [dlvItem ''bolt''] \<rparr>
   \<and> dlv_removeItem 1 (dlvForm2\<lparr> dlv_items := [dlvItem ''bolt''] \<rparr>)
       = dlvForm2\<lparr> dlv_items := [dlvItem ''bolt''] \<rparr>"
proof -
  have f0: "length (fd_items form0) \<le> 1"
    by (simp add: form0_def)
  have f2: "1 < length (fd_items form2)"
    "take 0 (fd_items form2) @ drop (Suc 0) (fd_items form2)
       = [defaultItem\<lparr> item_productName := ''nut'' \<rparr>]"
    by (simp_all add: form2_def)
  have g2: "1 < length (dlv_items dlvForm2)"
    "take 1 (dlv_items dlvForm2) @ drop (Suc 1) (dlv_items dlvForm2) = [dlvItem ''bolt'']"
    by (simp_all add: dlvForm2_def)
  have g1: "length (dlv_items (dlvForm2\<lparr> dlv_items := [dlvItem ''bolt''] \<rparr>)) \<le> 1"
    by simp
  have "removeItem 0 form0 = form0"
    using removeItem_never_empties_the_list [of form0 0 dlvForm2] f0 by blast
  moreover have "removeItem 0 form2 = form2\<lparr> fd_items := [defaultItem\<lparr> item_productName := ''nut'' \<rparr>] \<rparr>"
    "fd_items (removeItem 0 form2) \<noteq> []"
    using removeItem_never_empties_the_list [of form2 0 dlvForm2] f2 by simp_all
  moreover have "dlv_removeItem 1 dlvForm2 = dlvForm2\<lparr> dlv_items := [dlvItem ''bolt''] \<rparr>"
    using removeItem_never_empties_the_list [of form2 1 dlvForm2] g2 by simp
  moreover have "dlv_removeItem 1 (dlvForm2\<lparr> dlv_items := [dlvItem ''bolt''] \<rparr>)
       = dlvForm2\<lparr> dlv_items := [dlvItem ''bolt''] \<rparr>"
    using removeItem_never_empties_the_list
      [of form2 1 "dlvForm2\<lparr> dlv_items := [dlvItem ''bolt''] \<rparr>"] g1 by blast
  ultimately show ?thesis by simp
qed

section \<open>Item totals\<close>

text \<open>The parts of the totals that hold: the rendered numbers, and the defaults on load.\<close>

lemma rendered_totals:
  "renderedItemTotal item = js_mul (item_quantity item) (item_unitPrice item)"
  "renderedSubtotal f = foldl js_add (Num 0) (map renderedItemTotal (fd_items f))"
  "renderedTotal f = renderedSubtotal f"
  by (simp_all add: renderedItemTotal_def renderedSubtotal_def renderedTotal_def foldl_map)

lemma formatItems_defaults:
  assumes "i < length xs"
  shows "Number_js rt (raw_quantity (xs ! i)) = NaN \<Longrightarrow>
           item_quantity (formatItems rt (Some xs) ! i) = Num 1"
    and "Number_js rt (raw_unitPrice (xs ! i)) = NaN \<Longrightarrow>
           item_unitPrice (formatItems rt (Some xs) ! i) = Num 0"
    and "item_total (formatItems rt (Some xs) ! i)
           = js_mul (item_quantity (formatItems rt (Some xs) ! i))
                    (item_unitPrice (formatItems rt (Some xs) ! i))"
  using assms by (simp_all add: formatItems_def num_or_def)

lemma changeItem_total_when_nonzero:
  "truthy_num (item_quantity old) \<Longrightarrow> truthy_num (item_unitPrice old) \<Longrightarrow>
   change = SetQuantity v \<or> change = SetUnitPrice v \<Longrightarrow>
   item_total (changeItem old change)
     = js_mul (item_quantity (changeItem old change)) (item_unitPrice (changeItem old change))"
  by (auto simp: num_or_def)

text \<open>
  C4. Starting from the form as first shown (one item, quantity 1, unit price 0), the
  quantity is set to 0 and then the unit price to 5. \<open>handleItemChange\<close> reads the other
  operand as \<open>newItems[index]?.quantity || 1\<close>, so the stored \<open>total\<close> becomes
  \<open>1 * 5 = 5\<close> while the item's quantity is 0 and its unit price 5, whose product
  (the number in the Total cell) is 0.
\<close>

theorem zero_quantity_item_stores_wrong_total:
  "(case handleItemChange 0 (SetQuantity (Num 0)) form0 of
      None \<Rightarrow> None
    | Some f \<Rightarrow> handleItemChange 0 (SetUnitPrice (Num 5)) f)
   = Some (form0\<lparr> fd_items :=
       [defaultItem\<lparr> item_quantity := Num 0, item_unitPrice := Num 5, item_total := Num 5 \<rparr>] \<rparr>)
   \<and> renderedItemTotal
       (defaultItem\<lparr> item_quantity := Num 0, item_unitPrice := Num 5, item_total := Num 5 \<rparr>) = Num 0"
  by (simp add: handleItemChange_def form0_def defaultItem_def num_or_def renderedItemTotal_def)

section \<open>The DO number\<close>

lemma length_fixed: "length (fixed k n) = k"
  by (induction k arbitrary: n) simp_all

lemma fixed_Suc_front: "fixed (Suc k) n = digit (n div 10 ^ k mod 10) # fixed k n"
proof (induction k arbitrary: n)
  case 0
  show ?case by simp
next
  case (Suc k)
  have "fixed (Suc (Suc k)) n = fixed (Suc k) (n div 10) @ [digit (n mod 10)]"
    by simp
  also have "\<dots> = (digit (n div 10 div 10 ^ k mod 10) # fixed k (n div 10)) @ [digit (n mod 10)]"
    by (simp only: Suc.IH)
  also have "\<dots> = digit (n div 10 ^ Suc k mod 10) # fixed (Suc k) n"
    by (simp add: div_mult2_eq)
  finally show ?case .
qed

lemma toString_nat_small: "n < 10 \<Longrightarrow> toString_nat n = [digit n]"
  by (simp add: toString_nat.simps)

lemma toString_nat_split: "10 ^ k \<le> n \<Longrightarrow> toString_nat n = toString_nat (n div 10 ^ k) @ fixed k n"
proof (induction k arbitrary: n)
  case 0
  show ?case by simp
next
  case (Suc k)
  have "(1::nat) \<le> 10 ^ k"
    by simp
  then have "(10::nat) \<le> 10 * 10 ^ k"
    by linarith
  moreover have "10 * 10 ^ k \<le> n"
    using Suc.prems by simp
  ultimately have big: "10 \<le> n"
    by (rule le_trans)
  from Suc.prems have "10 ^ k \<le> n div 10"
    by (simp add: less_eq_div_iff_mult_less_eq)
  then have "toString_nat (n div 10) = toString_nat (n div 10 div 10 ^ k) @ fixed k (n div 10)"
    by (rule Suc.IH)
  moreover have "toString_nat n = toString_nat (n div 10) @ [digit (n mod 10)]"
    using big by (subst toString_nat.simps) simp
  ultimately show ?case by (simp add: div_mult2_eq)
qed

lemma toString_nat_fixed:
  assumes "10 ^ k \<le> n" "n < 10 ^ Suc k"
  shows "toString_nat n = fixed (Suc k) n"
proof -
  have "n div 10 ^ k < 10"
    using assms(2) by (simp add: less_mult_imp_div_less mult.commute)
  then have "toString_nat (n div 10 ^ k) = [digit (n div 10 ^ k mod 10)]"
    by (simp add: toString_nat_small)
  then show ?thesis
    using toString_nat_split [OF assms(1)] by (simp only: fixed_Suc_front append_Cons append_Nil)
qed

lemma slice_last_append: "length b = k \<Longrightarrow> slice_last k (a @ b) = b"
  by (simp add: slice_last_def)

lemma slice_last_toString:
  assumes "10 ^ k \<le> n"
  shows "slice_last (Suc k) (toString_nat n) = fixed (Suc k) n"
proof (cases "n < 10 ^ Suc k")
  case True
  then have "toString_nat n = fixed (Suc k) n"
    using assms by (intro toString_nat_fixed)
  then show ?thesis
    using slice_last_append [of "fixed (Suc k) n" "Suc k" "[]"] by (simp add: length_fixed)
next
  case False
  then have "toString_nat n = toString_nat (n div 10 ^ Suc k) @ fixed (Suc k) n"
    by (intro toString_nat_split) simp
  then show ?thesis
    using slice_last_append [of "fixed (Suc k) n" "Suc k"] by (simp add: length_fixed)
qed

lemma digit_0: "digit 0 = CHR ''0''"
  by (simp add: digit_def)

lemma fixed_numeral:
  "fixed (numeral k) n = fixed (pred_numeral k) (n div 10) @ [digit (n mod 10)]"
  by (simp add: numeral_eq_Suc [of k])

lemma padStart0_toString:
  assumes "n < 100"
  shows "padStart0 2 (toString_nat n) = fixed 2 n"
proof (cases "n < 10")
  case True
  then have "fixed (Suc (Suc 0)) n = [CHR ''0'', digit n]"
    by (simp add: digit_0)
  then show ?thesis
    using True by (simp add: toString_nat_small padStart0_def numeral_2_eq_2 del: fixed.simps)
next
  case False
  then have "toString_nat n = fixed (Suc 1) n"
    using assms by (intro toString_nat_fixed) simp_all
  moreover have "Suc 1 = 2" by simp
  ultimately have "toString_nat n = fixed 2 n" by (simp only:)
  then show ?thesis
    by (simp add: padStart0_def length_fixed del: fixed.simps)
qed

lemma year_toString:
  assumes "1000 \<le> y" "y \<le> 9999"
  shows "toString_nat y = fixed 4 y"
proof -
  have "toString_nat y = fixed (Suc 3) y"
    using assms by (intro toString_nat_fixed) simp_all
  moreover have "Suc 3 = 4" by simp
  ultimately show ?thesis by (simp only:)
qed

lemma timestamp_slice:
  assumes "100000 \<le> now"
  shows "slice_last 6 (toString_nat now) = fixed 6 now"
proof -
  have "slice_last (Suc 5) (toString_nat now) = fixed (Suc 5) now"
    using assms by (intro slice_last_toString) simp
  moreover have "Suc 5 = 6" by simp
  ultimately show ?thesis by (simp only:)
qed



text \<open>
  C8, amended. For a clock past the first hundred seconds of the epoch and a calendar
  date with a four-digit year, the number \<open>DOForm\<close> generates at mount is
  \<open>DO-{YYYYMMDD}-{last six digits of the timestamp}\<close>; the number in the initial state of
  \<open>DeliveryOrderForm\<close> is \<open>DO-{last six digits of the timestamp}\<close>, with no date part.
  Both are computed in the browser.
\<close>

theorem doNumber_formats:
  assumes "100000 \<le> now"
    and "1000 \<le> getFullYear date" and "getFullYear date \<le> 9999"
    and "getMonth date < 12"
    and "1 \<le> getDate date" and "getDate date \<le> 31"
  shows "fd_doNumber (generateDONumber now date prev) = spec_doNumber now date
       \<and> dlv_initial_doNumber now = ''DO-'' @ fixed 6 now"
proof -
  have "padStart0 2 (toString_nat (getMonth date + 1)) = fixed 2 (getMonth date + 1)"
    using assms(4) by (intro padStart0_toString) simp
  moreover have "padStart0 2 (toString_nat (getDate date)) = fixed 2 (getDate date)"
    using assms(6) by (intro padStart0_toString) simp
  ultimately show ?thesis
    using year_toString [OF assms(2,3)] timestamp_slice [OF assms(1)]
    by (simp add: generateDONumber_def spec_doNumber_def dlv_initial_doNumber_def Let_def
        del: fixed.simps)
qed

lemma sample_digits:
  "fixed 6 1700000123456 = ''123456''" "fixed 4 2023 = ''2023''" "fixed 2 11 = ''11''"
  "fixed 2 14 = ''14''"
  by (simp_all add: fixed_numeral digit_def)

theorem doNumber_formats_witness:
  "fd_doNumber (generateDONumber 1700000123456
      \<lparr> getFullYear = 2023, getMonth = 10, getDate = 14 \<rparr> form0) = ''DO-20231114-123456''
   \<and> dlv_initial_doNumber 1700000123456 = ''DO-123456''"
  using doNumber_formats [of 1700000123456 "\<lparr> getFullYear = 2023, getMonth = 10, getDate = 14 \<rparr>" form0]
  by (simp add: spec_doNumber_def sample_digits del: fixed.simps)

text \<open>
  C8 as the specification words it: both flows get the dated format. At the clock value 1700000123456
  (14 November 2023) \<open>DeliveryOrderForm\<close> starts with \<open>DO-123456\<close>, not with
  \<open>DO-20231114-123456\<close>.
\<close>

theorem DeliveryOrderForm_number_has_no_date:
  "dlv_initial_doNumber 1700000123456 = ''DO-123456''
   \<and> spec_doNumber 1700000123456 \<lparr> getFullYear = 2023, getMonth = 10, getDate = 14 \<rparr>
       = ''DO-20231114-123456''
   \<and> dlv_initial_doNumber 1700000123456
       \<noteq> spec_doNumber 1700000123456 \<lparr> getFullYear = 2023, getMonth = 10, getDate = 14 \<rparr>"
proof -
  have "slice_last 6 (toString_nat 1700000123456) = ''123456''"
    using timestamp_slice [of 1700000123456] by (simp add: sample_digits del: fixed.simps)
  then show ?thesis
    by (simp add: dlv_initial_doNumber_def spec_doNumber_def sample_digits del: fixed.simps)
qed

end
